theory Spec2Isabelle
  imports Complex_Main "HOL-Library.Sublist"
begin

section \<open>Data model\<close>

text \<open>
  The server (src/index.js) and the seed script (prisma/seed.js) work on six tables
  through the Prisma client. The rows are records, the database is a record of tables
  (lists, in insertion order) and of the autoincrement sequences of the primary keys.
\<close>

datatype role = USER | MODERATOR | ADMIN

text \<open>
  Modelled from the spec: prisma/schema.prisma is not among the sources. The fields are
  those of section 3 of the specification and those the handlers and the seed script
  read and write (\<open>createdAt\<close> of a user is ordered on by the list endpoint); a
  nullable column is an option.
\<close>

record user =
  user_id :: int
  user_email :: string
  user_name :: "string option"
  user_age :: "int option"
  user_role :: role
  user_isActive :: bool
  user_createdAt :: int

record profile =
  profile_id :: int
  profile_bio :: "string option"
  profile_avatar :: "string option"
  profile_website :: "string option"
  profile_location :: "string option"
  profile_userId :: int

record post =
  post_id :: int
  post_title :: string
  post_content :: "string option"
  post_published :: bool
  post_views :: int
  post_authorId :: int
  post_createdAt :: int

record category =
  category_id :: int
  category_name :: string
  category_color :: "string option"

record postCategory =
  pc_postId :: int
  pc_categoryId :: int

record comment =
  comment_id :: int
  comment_content :: string
  comment_authorId :: int
  comment_postId :: int

record db =
  users :: "user list"
  profiles :: "profile list"
  posts :: "post list"
  categories :: "category list"
  postCategories :: "postCategory list"
  comments :: "comment list"
  user_seq :: int
  profile_seq :: int
  post_seq :: int
  category_seq :: int
  comment_seq :: int

section \<open>Errors and responses\<close>

text \<open>
  A JavaScript error object as the handlers read it: \<open>error.code\<close> (undefined for
  every error that is not a known request error of the query layer) and
  \<open>error.message\<close>.
\<close>

datatype js_error = JsError (code: "string option") (message: string)

definition unique_violation :: js_error where
  "unique_violation = JsError (Some ''P2002'') ''Unique constraint failed''"

definition record_not_found :: js_error where
  "record_not_found = JsError (Some ''P2025'') ''Record not found''"

definition foreign_key_violation :: js_error where
  "foreign_key_violation = JsError (Some ''P2003'') ''Foreign key constraint failed''"

definition validation_error :: js_error where
  "validation_error = JsError None ''Invalid invocation''"

text \<open>
  A value that does not fit its column (an integer outside the 32-bit \<open>Int\<close>), and a
  statement that PostgreSQL itself rejects: the handlers see an error whose code is none
  of those they test.
\<close>

definition value_out_of_range :: js_error where
  "value_out_of_range = JsError None ''Value out of range for the type''"

definition database_error :: js_error where
  "database_error = JsError None ''Error occurred during query execution''"

text \<open>\<open>throw new Error(msg)\<close>: an error with a message and no code.\<close>

definition Error :: "string \<Rightarrow> js_error" where
  "Error msg = JsError None msg"

text \<open>A JavaScript number where the handlers can produce a non-finite one.\<close>

datatype jsnum = Num int | Infinity | NaN

text \<open>\<open>page\<close> and \<open>limit\<close> are results of \<open>parseInt\<close>: an integer, or NaN (\<open>None\<close>).\<close>

record pagination =
  page :: "int option"
  limit :: "int option"
  total :: int
  totalPages :: jsnum

text \<open>
  Rows as the queries return them: \<open>include: { profile: true }\<close> adds the profile or
  null; without the include the field is absent (the outer \<open>None\<close>).
\<close>

record user_view =
  uv_user :: user
  uv_profile :: "profile option option"

text \<open>
  A post with \<open>include: { author, categories: { include: { category } } }\<close>, and
  \<open>_count.comments\<close> where the query selects it.
\<close>

record post_view =
  pv_post :: post
  pv_author :: "user option"
  pv_categories :: "(postCategory \<times> category option) list"
  pv_count_comments :: "nat option"

datatype json =
    ErrorBody string
  | UserBody user_view
  | NoBody
  | UsersPage "user_view list" pagination
  | PostsPage "post_view list" pagination
  | TransferBody post_view "user option"

datatype response = Response (status: nat) (body: json)

section \<open>Strings and numbers of the requests\<close>

text \<open>
  A path or query parameter reaches a handler as a string, or not at all; a
  destructuring default puts a number in the place of an absent one. The handlers turn
  such a value into a number in two ways: arithmetic applies \<open>ToNumber\<close>, and
  \<open>parseInt\<close> reads an integer prefix. Numbers are exact here (no rounding to a
  double); \<open>None\<close> is NaN for \<open>parseInt\<close>, and NaN or an infinity for
  \<open>ToNumber\<close>: no arithmetic of the handlers turns either into a finite number
  again. Strings are ASCII.
\<close>

datatype js_value = Str string | Number int

definition or_default :: "int \<Rightarrow> string option \<Rightarrow> js_value" where
  "or_default n v = (case v of None \<Rightarrow> Number n | Some s \<Rightarrow> Str s)"

definition is_space :: "char \<Rightarrow> bool" where
  "is_space c = ((of_char c :: int) \<in> {9, 10, 11, 12, 13, 32})"

definition digit_of :: "int \<Rightarrow> char \<Rightarrow> int option" where
  "digit_of radix c =
     (let n = (of_char c :: int);
          v = (if 48 \<le> n \<and> n \<le> 57 then Some (n - 48)
               else if 97 \<le> n \<and> n \<le> 122 then Some (n - 87)
               else if 65 \<le> n \<and> n \<le> 90 then Some (n - 55)
               else None)
      in case v of None \<Rightarrow> None | Some k \<Rightarrow> if k < radix then Some k else None)"

definition is_digit :: "int \<Rightarrow> char \<Rightarrow> bool" where
  "is_digit radix c = (digit_of radix c \<noteq> None)"

definition digits_value :: "int \<Rightarrow> string \<Rightarrow> int" where
  "digits_value radix s =
     foldl (\<lambda>a c. case digit_of radix c of None \<Rightarrow> a | Some k \<Rightarrow> a * radix + k) 0 s"

definition all_digits :: "int \<Rightarrow> string \<Rightarrow> bool" where
  "all_digits radix s = (s \<noteq> [] \<and> list_all (is_digit radix) s)"

definition signed :: "bool \<Rightarrow> int \<Rightarrow> int" where
  "signed neg n = (if neg then - n else n)"

text \<open>
  \<open>parseInt(string)\<close> without a radix: leading white space, a sign, \<open>0x\<close> for
  radix 16, then the longest prefix of digits; NaN when there is none.
\<close>

definition parseInt_string :: "string \<Rightarrow> int option" where
  "parseInt_string s =
     (let s1 = dropWhile is_space s;
          neg = (take 1 s1 = ''-'');
          s2 = (if take 1 s1 = ''+'' \<or> take 1 s1 = ''-'' then drop 1 s1 else s1);
          hex = (take 2 s2 = ''0x'' \<or> take 2 s2 = ''0X'');
          radix = (if hex then 16 else 10);
          z = takeWhile (is_digit radix) (if hex then drop 2 s2 else s2)
      in if z = [] then None else Some (signed neg (digits_value radix z)))"

definition parseInt :: "js_value \<Rightarrow> int option" where
  "parseInt v = (case v of Number n \<Rightarrow> Some n | Str s \<Rightarrow> parseInt_string s)"

text \<open>
  The exponent part that ends a decimal literal: its value, 0 when the literal has ended,
  \<open>None\<close> when what is left is no exponent part.
\<close>

definition exponent_part :: "string \<Rightarrow> int option" where
  "exponent_part s =
     (if s = [] then Some 0
      else if take 1 s = ''e'' \<or> take 1 s = ''E'' then
        (let r = drop 1 s;
             neg = (take 1 r = ''-'');
             ds = (if take 1 r = ''+'' \<or> take 1 r = ''-'' then drop 1 r else r)
         in if all_digits 10 ds then Some (signed neg (digits_value 10 ds)) else None)
      else None)"

definition scale10 :: "rat \<Rightarrow> int \<Rightarrow> rat" where
  "scale10 x e = (if 0 \<le> e then x * 10 ^ nat e else x / 10 ^ nat (- e))"

text \<open>
  An unsigned decimal literal: digits, a fraction and an exponent, with a digit before or
  after the point. \<open>Infinity\<close> is no finite number.
\<close>

definition unsigned_decimal :: "string \<Rightarrow> rat option" where
  "unsigned_decimal s =
     (let ip = takeWhile (is_digit 10) s;
          r1 = dropWhile (is_digit 10) s;
          dot = (take 1 r1 = ''.'');
          fp = (if dot then takeWhile (is_digit 10) (drop 1 r1) else []);
          r2 = (if dot then dropWhile (is_digit 10) (drop 1 r1) else r1)
      in if ip = [] \<and> fp = [] then None
         else case exponent_part r2 of
                None \<Rightarrow> None
              | Some e \<Rightarrow>
                  Some (scale10 (of_int (digits_value 10 (ip @ fp))) (e - int (length fp))))"

definition trim :: "string \<Rightarrow> string" where
  "trim s = rev (dropWhile is_space (rev (dropWhile is_space s)))"

definition prefixed :: "int \<Rightarrow> string \<Rightarrow> rat option" where
  "prefixed radix ds =
     (if all_digits radix ds then Some (of_int (digits_value radix ds)) else None)"

text \<open>
  \<open>ToNumber\<close> of a string: the whole trimmed string must be a numeric literal; the
  empty string is 0; a hexadecimal, octal or binary literal takes no sign.
\<close>

definition StringToNumber :: "string \<Rightarrow> rat option" where
  "StringToNumber s =
     (let t = trim s in
      if t = [] then Some 0
      else if take 2 t = ''0x'' \<or> take 2 t = ''0X'' then prefixed 16 (drop 2 t)
      else if take 2 t = ''0o'' \<or> take 2 t = ''0O'' then prefixed 8 (drop 2 t)
      else if take 2 t = ''0b'' \<or> take 2 t = ''0B'' then prefixed 2 (drop 2 t)
      else
        let neg = (take 1 t = ''-'');
            u = (if take 1 t = ''+'' \<or> take 1 t = ''-'' then drop 1 t else t)
        in map_option (\<lambda>x. if neg then - x else x) (unsigned_decimal u))"

definition ToNumber :: "js_value \<Rightarrow> rat option" where
  "ToNumber v = (case v of Number n \<Rightarrow> Some (of_int n) | Str s \<Rightarrow> StringToNumber s)"

text \<open>\<open>a - b\<close> and \<open>a * b\<close> on such numbers.\<close>

definition js_minus :: "rat option \<Rightarrow> rat option \<Rightarrow> rat option" where
  "js_minus a b = (case (a, b) of (Some x, Some y) \<Rightarrow> Some (x - y) | _ \<Rightarrow> None)"

definition js_times :: "rat option \<Rightarrow> rat option \<Rightarrow> rat option" where
  "js_times a b = (case (a, b) of (Some x, Some y) \<Rightarrow> Some (x * y) | _ \<Rightarrow> None)"

section \<open>The query layer\<close>

text \<open>
  The Prisma client is an external library. Its calls are modelled on the database
  record after the documented behaviour of Prisma on PostgreSQL: a call returns the
  error it throws (\<open>Inl\<close>) or its result, and the database after it. The fields
  of a JSON body have the JSON types of the schema; an optional field is an option.
  The argument of a where-filter is checked before the rows are looked at: NaN where an
  integer is due is a validation error, an integer outside the 32-bit \<open>Int\<close> of a
  column is out of range. A value of the data is checked when the row is written.
\<close>

definition Int32 :: "int \<Rightarrow> bool" where
  "Int32 n = (- 2147483648 \<le> n \<and> n \<le> 2147483647)"

definition Int32_opt :: "int option \<Rightarrow> bool" where
  "Int32_opt v = (case v of None \<Rightarrow> True | Some n \<Rightarrow> Int32 n)"

definition findUser :: "int \<Rightarrow> db \<Rightarrow> user option" where
  "findUser i d = find (\<lambda>u. user_id u = i) (users d)"

definition findUserByEmail :: "string \<Rightarrow> db \<Rightarrow> user option" where
  "findUserByEmail e d = find (\<lambda>u. user_email u = e) (users d)"


record profile_data =
  pd_bio :: "string option"
  pd_avatar :: "string option"
  pd_website :: "string option"
  pd_location :: "string option"

record user_data =
  ud_email :: "string option"
  ud_name :: "string option"
  ud_age :: "int option"
  ud_role :: "role option"
  ud_profile :: "profile_data option"

definition new_profile :: "int \<Rightarrow> int \<Rightarrow> profile_data \<Rightarrow> profile" where
  "new_profile i uid pd =
     \<lparr>profile_id = i, profile_bio = pd_bio pd, profile_avatar = pd_avatar pd,
      profile_website = pd_website pd, profile_location = pd_location pd,
      profile_userId = uid\<rparr>"

text \<open>
  \<open>prisma.user.create({ data: { email, name, age, role, profile: { create } },
  include: { profile: true } })\<close> at time \<open>now\<close>. The insert draws the next id of the
  sequence, which PostgreSQL does not give back when the unique index on \<open>email\<close>
  rejects the row (P2002). The nested profile is written in the same statement. An age
  outside the column's range is rejected before the insert.
\<close>

definition user_create :: "int \<Rightarrow> user_data \<Rightarrow> db \<Rightarrow> (js_error + user_view) \<times> db" where
  "user_create now ud d =
     (case ud_email ud of
        None \<Rightarrow> (Inl validation_error, d)
      | Some e \<Rightarrow>
          let i = user_seq d; d1 = d\<lparr>user_seq := i + 1\<rparr> in
          if \<not> Int32_opt (ud_age ud) then (Inl value_out_of_range, d)
          else if findUserByEmail e d \<noteq> None then (Inl unique_violation, d1)
          else
            let u = \<lparr>user_id = i, user_email = e, user_name = ud_name ud,
                     user_age = ud_age ud,
                     user_role = (case ud_role ud of None \<Rightarrow> USER | Some r \<Rightarrow> r),
                     user_isActive = True, user_createdAt = now\<rparr>;
                d2 = d1\<lparr>users := users d1 @ [u]\<rparr>
            in (case ud_profile ud of
                  None \<Rightarrow> (Inr \<lparr>uv_user = u, uv_profile = Some None\<rparr>, d2)
                | Some pd \<Rightarrow>
                    let p = new_profile (profile_seq d2) i pd
                    in (Inr \<lparr>uv_user = u, uv_profile = Some (Some p)\<rparr>,
                        d2\<lparr>profiles := profiles d2 @ [p],
                           profile_seq := profile_seq d2 + 1\<rparr>)))"






section \<open>The user handlers of the server\<close>

text \<open>The \<open>catch\<close> clause of \<open>POST /api/users\<close>.\<close>

definition post_api_users_catch :: "js_error \<Rightarrow> response" where
  "post_api_users_catch error =
     (if code error = Some ''P2002'' then Response 400 (ErrorBody ''Email already exists'')
      else Response 500 (ErrorBody (message error)))"


text \<open>The \<open>catch\<close> clause of \<open>PUT /api/users/:id\<close>.\<close>

definition put_api_users_id_catch :: "js_error \<Rightarrow> response" where
  "put_api_users_id_catch error =
     (if code error = Some ''P2025'' then Response 404 (ErrorBody ''User not found'')
      else Response 500 (ErrorBody (message error)))"


text \<open>The \<open>catch\<close> clause of \<open>DELETE /api/users/:id\<close>.\<close>

definition delete_api_users_id_catch :: "js_error \<Rightarrow> response" where
  "delete_api_users_id_catch error =
     (if code error = Some ''P2025'' then Response 404 (ErrorBody ''User not found'')
      else Response 500 (ErrorBody (message error)))"


section \<open>The transfer endpoint\<close>

definition findPost :: "int \<Rightarrow> db \<Rightarrow> post option" where
  "findPost i d = find (\<lambda>p. post_id p = i) (posts d)"

definition findCategory :: "int \<Rightarrow> db \<Rightarrow> category option" where
  "findCategory i d = find (\<lambda>c. category_id c = i) (categories d)"

text \<open>\<open>tx.user.findUnique({ where: { email } })\<close>; an undefined email is no unique filter.\<close>

definition user_findUnique_email :: "string option \<Rightarrow> db \<Rightarrow> js_error + user option" where
  "user_findUnique_email email d =
     (case email of None \<Rightarrow> Inl validation_error | Some e \<Rightarrow> Inr (findUserByEmail e d))"

text \<open>\<open>tx.post.findUnique({ where: { id }, include: { author: true } })\<close>.\<close>

definition post_findUnique_author :: "int \<Rightarrow> db \<Rightarrow> (post \<times> user option) option" where
  "post_findUnique_author i d =
     (case findPost i d of None \<Rightarrow> None | Some p \<Rightarrow> Some (p, findUser (post_authorId p) d))"

definition categories_of :: "post \<Rightarrow> db \<Rightarrow> (postCategory \<times> category option) list" where
  "categories_of p d =
     map (\<lambda>pc. (pc, findCategory (pc_categoryId pc) d))
       (filter (\<lambda>pc. pc_postId pc = post_id p) (postCategories d))"

text \<open>
  \<open>tx.post.update({ where: { id }, data: { authorId }, include: { author: true,
  categories: { include: { category: true } } } })\<close>: P2025 when no row has the id,
  P2003 when no user has the new \<open>authorId\<close>.
\<close>

definition post_update_authorId :: "int \<Rightarrow> int \<Rightarrow> db \<Rightarrow> (js_error + post_view) \<times> db" where
  "post_update_authorId i a d =
     (case findPost i d of
        None \<Rightarrow> (Inl record_not_found, d)
      | Some p \<Rightarrow>
          if findUser a d = None then (Inl foreign_key_violation, d)
          else
            let p' = p\<lparr>post_authorId := a\<rparr>;
                d' = d\<lparr>posts := map (\<lambda>q. if post_id q = i then q\<lparr>post_authorId := a\<rparr> else q)
                                   (posts d)\<rparr>
            in (Inr \<lparr>pv_post = p', pv_author = findUser a d',
                     pv_categories = categories_of p' d', pv_count_comments = None\<rparr>, d'))"

text \<open>
  \<open>prisma.$transaction(async (tx) => ...)\<close>: the writes of the callback are kept when
  it returns and undone when it throws; sequences are not rolled back.
\<close>

definition transaction :: "(db \<Rightarrow> (js_error + 'a) \<times> db) \<Rightarrow> db \<Rightarrow> (js_error + 'a) \<times> db" where
  "transaction f d =
     (case f d of
        (Inr r, d') \<Rightarrow> (Inr r, d')
      | (Inl e, d') \<Rightarrow>
          (Inl e, d\<lparr>user_seq := user_seq d', profile_seq := profile_seq d',
                    post_seq := post_seq d', category_seq := category_seq d',
                    comment_seq := comment_seq d'\<rparr>))"

text \<open>
  The callback of the transfer handler, on the id of a post (the integer that
  \<open>parseInt\<close> reads from the path) and the body's email.
\<close>

definition transfer_tx :: "int \<Rightarrow> string option \<Rightarrow> db \<Rightarrow> (js_error + json) \<times> db" where
  "transfer_tx i newAuthorEmail tx =
     (case user_findUnique_email newAuthorEmail tx of
        Inl e \<Rightarrow> (Inl e, tx)
      | Inr None \<Rightarrow> (Inl (Error ''New author not found''), tx)
      | Inr (Some newAuthor) \<Rightarrow>
          (case post_findUnique_author i tx of
             None \<Rightarrow> (Inl (Error ''Post not found''), tx)
           | Some currentPost \<Rightarrow>
               (case post_update_authorId i (user_id newAuthor) tx of
                  (Inl e, tx') \<Rightarrow> (Inl e, tx')
                | (Inr updatedPost, tx') \<Rightarrow>
                    (Inr (TransferBody updatedPost (snd currentPost)), tx'))))"

text \<open>The \<open>catch\<close> clause of \<open>POST /api/posts/:id/transfer\<close>.\<close>

definition post_api_posts_id_transfer_catch :: "js_error \<Rightarrow> response" where
  "post_api_posts_id_transfer_catch error = Response 400 (ErrorBody (message error))"

definition post_api_posts_id_transfer :: "int \<Rightarrow> string option \<Rightarrow> db \<Rightarrow> response \<times> db" where
  "post_api_posts_id_transfer i newAuthorEmail d =
     (case transaction (transfer_tx i newAuthorEmail) d of
        (Inr result, d') \<Rightarrow> (Response 200 result, d')
      | (Inl error, d') \<Rightarrow> (post_api_posts_id_transfer_catch error, d'))"

section \<open>The read-only handlers\<close>

text \<open>
  The \<open>catch\<close> clauses of \<open>GET /api/users\<close>, \<open>GET /api/users/:id\<close>,
  \<open>GET /api/analytics/posts\<close>, \<open>GET /api/posts/search\<close> and
  \<open>GET /api/raw/user-activity\<close> are the same statement.
\<close>

definition get_api_users_catch :: "js_error \<Rightarrow> response" where
  "get_api_users_catch error = Response 500 (ErrorBody (message error))"

definition get_api_users_id_catch :: "js_error \<Rightarrow> response" where
  "get_api_users_id_catch error = Response 500 (ErrorBody (message error))"

definition get_api_analytics_posts_catch :: "js_error \<Rightarrow> response" where
  "get_api_analytics_posts_catch error = Response 500 (ErrorBody (message error))"

definition get_api_posts_search_catch :: "js_error \<Rightarrow> response" where
  "get_api_posts_search_catch error = Response 500 (ErrorBody (message error))"

definition get_api_raw_user_activity_catch :: "js_error \<Rightarrow> response" where
  "get_api_raw_user_activity_catch error = Response 500 (ErrorBody (message error))"

subsection \<open>Filters\<close>

text \<open>
  \<open>contains\<close> and \<open>equals\<close> with \<open>mode: 'insensitive'\<close> are run by PostgreSQL as
  \<open>ILIKE\<close>, on the pattern \<open>%value%\<close> and on the value itself. The value is not
  escaped: in it \<open>%\<close> stands for any run of characters, \<open>_\<close> for any one character,
  and a backslash takes the next character literally. Letters match in either case
  (ASCII here). A null column matches nothing.
\<close>

definition lower :: "char \<Rightarrow> char" where
  "lower c = (let n = (of_char c :: nat) in if 65 \<le> n \<and> n \<le> 90 then char_of (n + 32) else c)"

fun ilike :: "string \<Rightarrow> string \<Rightarrow> bool" where
  "ilike [] s = (s = [])"
| "ilike (p # ps) s =
     (if p = CHR ''%'' then
        ilike ps s \<or> (case s of [] \<Rightarrow> False | c # cs \<Rightarrow> ilike (p # ps) cs)
      else if p = CHR ''_'' then
        (case s of [] \<Rightarrow> False | c # cs \<Rightarrow> ilike ps cs)
      else if p = CHR 0x5C then
        (case ps of
           [] \<Rightarrow> False
         | q # qs \<Rightarrow> (case s of [] \<Rightarrow> False | c # cs \<Rightarrow> lower c = lower q \<and> ilike qs cs))
      else
        (case s of [] \<Rightarrow> False | c # cs \<Rightarrow> lower c = lower p \<and> ilike ps cs))"

text \<open>A pattern that ends in a backslash which escapes nothing: PostgreSQL rejects it.\<close>

fun dangling_escape :: "string \<Rightarrow> bool" where
  "dangling_escape [] = False"
| "dangling_escape [c] = (c = CHR 0x5C)"
| "dangling_escape (c # e # cs) =
     (if c = CHR 0x5C then dangling_escape cs else dangling_escape (e # cs))"

definition icontains :: "string \<Rightarrow> string \<Rightarrow> bool" where
  "icontains field s = ilike (''%'' @ s @ ''%'') field"

definition iequals :: "string \<Rightarrow> string \<Rightarrow> bool" where
  "iequals field s = ilike s field"

definition icontains_opt :: "string option \<Rightarrow> string \<Rightarrow> bool" where
  "icontains_opt field s = (case field of None \<Rightarrow> False | Some f \<Rightarrow> icontains f s)"

text \<open>JavaScript truthiness of a query-string value: defined and not empty.\<close>

definition truthy :: "string option \<Rightarrow> bool" where
  "truthy v = (case v of None \<Rightarrow> False | Some s \<Rightarrow> s \<noteq> [])"

datatype user_cond = NameContains string | EmailContains string



fun user_cond_holds :: "user_cond \<Rightarrow> user \<Rightarrow> bool" where
  "user_cond_holds (NameContains s) u = icontains_opt (user_name u) s"
| "user_cond_holds (EmailContains s) u = icontains (user_email u) s"



datatype post_cond = TitleContains string | ContentContains string

text \<open>
  \<open>new Date(string)\<close> is given by what it reads from the string: an instant, or the
  invalid date.
\<close>

datatype js_date = Invalid_Date | Date int

record date_filter =
  df_gte :: "js_date option"
  df_lte :: "js_date option"

text \<open>
  \<open>pw_categories\<close> is \<open>categories: { some: { category: { name: { equals, mode:
  'insensitive' } } } }\<close>, \<open>pw_author\<close> is \<open>author: { name: { contains, mode:
  'insensitive' } }\<close>, \<open>pw_views\<close> is \<open>views: { gte }\<close> with the result of
  \<open>parseInt\<close>.
\<close>

record post_where =
  pw_OR :: "post_cond list option"
  pw_categories :: "string option"
  pw_author :: "string option"
  pw_published :: "bool option"
  pw_views :: "int option option"
  pw_createdAt :: "date_filter option"

fun post_cond_holds :: "post_cond \<Rightarrow> post \<Rightarrow> bool" where
  "post_cond_holds (TitleContains s) p = icontains (post_title p) s"
| "post_cond_holds (ContentContains s) p = icontains_opt (post_content p) s"

definition not_before :: "js_date option \<Rightarrow> int \<Rightarrow> bool" where
  "not_before f t = (case f of None \<Rightarrow> True | Some Invalid_Date \<Rightarrow> False | Some (Date a) \<Rightarrow> a \<le> t)"

definition not_after :: "js_date option \<Rightarrow> int \<Rightarrow> bool" where
  "not_after f t = (case f of None \<Rightarrow> True | Some Invalid_Date \<Rightarrow> False | Some (Date b) \<Rightarrow> t \<le> b)"

definition post_matches :: "db \<Rightarrow> post_where \<Rightarrow> post \<Rightarrow> bool" where
  "post_matches d w p =
     ((case pw_OR w of None \<Rightarrow> True | Some cs \<Rightarrow> \<exists>c \<in> set cs. post_cond_holds c p)
      \<and> (case pw_categories w of None \<Rightarrow> True
          | Some n \<Rightarrow> \<exists>pc \<in> set (postCategories d). pc_postId pc = post_id p
                       \<and> (\<exists>c \<in> set (categories d).
                             category_id c = pc_categoryId pc \<and> iequals (category_name c) n))
      \<and> (case pw_author w of None \<Rightarrow> True
          | Some a \<Rightarrow> \<exists>u \<in> set (users d). user_id u = post_authorId p
                       \<and> icontains_opt (user_name u) a)
      \<and> (case pw_published w of None \<Rightarrow> True | Some b \<Rightarrow> post_published p = b)
      \<and> (case pw_views w of None \<Rightarrow> True | Some None \<Rightarrow> False
          | Some (Some v) \<Rightarrow> v \<le> post_views p)
      \<and> (case pw_createdAt w of None \<Rightarrow> True
          | Some f \<Rightarrow> not_before (df_gte f) (post_createdAt p)
                     \<and> not_after (df_lte f) (post_createdAt p)))"

text \<open>
  What the query layer checks of a where-filter, in this order: the arguments are
  well-formed (no NaN, no invalid date), the bound on the views fits the column, and
  the pattern of the category name is one that PostgreSQL runs.
\<close>

definition post_where_wellformed :: "post_where \<Rightarrow> bool" where
  "post_where_wellformed w =
     (pw_views w \<noteq> Some None
      \<and> (case pw_createdAt w of None \<Rightarrow> True
          | Some f \<Rightarrow> df_gte f \<noteq> Some Invalid_Date \<and> df_lte f \<noteq> Some Invalid_Date))"

definition post_where_in_range :: "post_where \<Rightarrow> bool" where
  "post_where_in_range w = (case pw_views w of None \<Rightarrow> True | Some v \<Rightarrow> Int32_opt v)"

definition post_where_runs :: "post_where \<Rightarrow> bool" where
  "post_where_runs w = (case pw_categories w of None \<Rightarrow> True | Some n \<Rightarrow> \<not> dangling_escape n)"


subsection \<open>findMany and count\<close>

text \<open>
  \<open>skip\<close> and \<open>take\<close> of \<open>findMany\<close>: a negative \<open>take\<close> counts from the end of the
  ordered list.
\<close>

definition slice :: "int \<Rightarrow> int \<Rightarrow> 'a list \<Rightarrow> 'a list" where
  "slice skip tk xs =
     (if 0 \<le> tk then take (nat tk) (drop (nat skip) xs)
      else rev (take (nat (- tk)) (drop (nat skip) (rev xs))))"

text \<open>
  What the query layer accepts as \<open>skip\<close> and \<open>take\<close>: \<open>take\<close> an integer, \<open>skip\<close>
  an integer that is not negative. The result is the pair of integers.
\<close>

definition skip_take :: "rat option \<Rightarrow> int option \<Rightarrow> (int \<times> int) option" where
  "skip_take skip tk =
     (case (skip, tk) of
        (Some s, Some t) \<Rightarrow> if 0 \<le> s \<and> s = of_int \<lfloor>s\<rfloor> then Some (\<lfloor>s\<rfloor>, t) else None
      | _ \<Rightarrow> None)"


definition posts_desc :: "post list \<Rightarrow> post list" where
  "posts_desc ps = sort_key (\<lambda>p. - post_createdAt p) ps"




text \<open>
  The include of the search: the author, the categories with their category, and the
  number of comments.
\<close>

definition post_view_of :: "db \<Rightarrow> post \<Rightarrow> post_view" where
  "post_view_of d p =
     \<lparr>pv_post = p, pv_author = findUser (post_authorId p) d,
      pv_categories = categories_of p d,
      pv_count_comments = Some (length (filter (\<lambda>c. comment_postId c = post_id p) (comments d)))\<rparr>"

text \<open>\<open>prisma.post.findMany({ where, include, skip, take, orderBy })\<close>.\<close>

definition post_findMany ::
  "post_where \<Rightarrow> rat option \<Rightarrow> int option \<Rightarrow> db \<Rightarrow> js_error + post_view list" where
  "post_findMany w skip tk d =
     (case skip_take skip tk of
        None \<Rightarrow> Inl validation_error
      | Some (s, t) \<Rightarrow>
          if \<not> post_where_wellformed w then Inl validation_error
          else if \<not> post_where_in_range w then Inl value_out_of_range
          else if \<not> post_where_runs w then Inl database_error
          else Inr (map (post_view_of d)
                      (slice s t (posts_desc (filter (post_matches d w) (posts d))))))"

definition post_count :: "post_where \<Rightarrow> db \<Rightarrow> nat" where
  "post_count w d = length (filter (post_matches d w) (posts d))"

subsection \<open>The list and search handlers\<close>

text \<open>
  \<open>Math.ceil(total / take)\<close> for a count \<open>total\<close> and the result \<open>take\<close> of
  \<open>parseInt\<close>.
\<close>

definition Math_ceil_div :: "nat \<Rightarrow> int option \<Rightarrow> jsnum" where
  "Math_ceil_div tot tk =
     (case tk of
        None \<Rightarrow> NaN
      | Some t \<Rightarrow>
          if t = 0 then (if tot = 0 then NaN else Infinity)
          else Num (- ((- int tot) div t)))"




text \<open>
  The query string of \<open>GET /api/posts/search\<close>: each parameter is absent or one
  string; \<open>date_from\<close> and \<open>date_to\<close> are absent (or empty), or given by what
  \<open>new Date\<close> reads from them.
\<close>

record search_query =
  sq_q :: "string option"
  sq_category :: "string option"
  sq_author :: "string option"
  sq_published :: "string option"
  sq_min_views :: "string option"
  sq_date_from :: "js_date option"
  sq_date_to :: "js_date option"
  sq_page :: "string option"
  sq_limit :: "string option"

definition search_where :: "search_query \<Rightarrow> post_where" where
  "search_where q =
     \<lparr>pw_OR = (if truthy (sq_q q)
               then Some [TitleContains (the (sq_q q)), ContentContains (the (sq_q q))]
               else None),
      pw_categories = (if truthy (sq_category q) then sq_category q else None),
      pw_author = (if truthy (sq_author q) then sq_author q else None),
      pw_published = (case sq_published q of None \<Rightarrow> None | Some s \<Rightarrow> Some (s = ''true'')),
      pw_views = (if truthy (sq_min_views q)
                  then Some (parseInt (Str (the (sq_min_views q)))) else None),
      pw_createdAt = (if sq_date_from q \<noteq> None \<or> sq_date_to q \<noteq> None
                      then Some \<lparr>df_gte = sq_date_from q, df_lte = sq_date_to q\<rparr>
                      else None)\<rparr>"

definition get_api_posts_search :: "search_query \<Rightarrow> db \<Rightarrow> response" where
  "get_api_posts_search q d =
     (let w = search_where q;
          pg = or_default 1 (sq_page q);
          lmt = or_default 10 (sq_limit q);
          skip = js_times (js_minus (ToNumber pg) (Some 1)) (ToNumber lmt);
          tk = parseInt lmt
      in case post_findMany w skip tk d of
           Inl error \<Rightarrow> get_api_posts_search_catch error
         | Inr ps \<Rightarrow>
             let tot = post_count w d
             in Response 200 (PostsPage ps
                  \<lparr>page = parseInt pg, limit = tk, total = int tot,
                   totalPages = Math_ceil_div tot tk\<rparr>))"


section \<open>The seed script\<close>

subsection \<open>The calls of the script and their log\<close>

text \<open>
  The script is a sequence of awaited calls of the query layer. A run returns the value
  or the error of the script, the database, and the calls made, in order;
  \<open>deleteMany\<close> is logged with the count it returns.
\<close>

datatype model = Comment | PostCategory | Post | Category | Profile | User

datatype call = DeleteMany model nat | Create model | Count model

type_synonym 'a run = "db \<Rightarrow> (js_error + 'a) \<times> db \<times> call list"

definition return :: "'a \<Rightarrow> 'a run" where
  "return x d = (Inr x, d, [])"

definition throw :: "js_error \<Rightarrow> 'a run" where
  "throw e d = (Inl e, d, [])"

text \<open>\<open>const x = await m; f(x)\<close>: a rejected promise ends the script.\<close>

definition await :: "'a run \<Rightarrow> ('a \<Rightarrow> 'b run) \<Rightarrow> 'b run" where
  "await m f d =
     (case m d of
        (Inl e, d1, t1) \<Rightarrow> (Inl e, d1, t1)
      | (Inr x, d1, t1) \<Rightarrow> (case f x d1 of (r, d2, t2) \<Rightarrow> (r, d2, t1 @ t2)))"

definition logged :: "call \<Rightarrow> (db \<Rightarrow> (js_error + 'a) \<times> db) \<Rightarrow> 'a run" where
  "logged c f d = (case f d of (r, d') \<Rightarrow> (r, d', [c]))"

text \<open>\<open>for (const x of xs) { body }\<close>.\<close>

primrec forEach :: "'i list \<Rightarrow> ('i \<Rightarrow> unit run) \<Rightarrow> unit run" where
  "forEach [] blk = return ()"
| "forEach (x # xs) blk = await (blk x) (\<lambda>_. forEach xs blk)"

text \<open>A loop that pushes onto an array: the array is passed on from round to round.\<close>

primrec forPush :: "'i list \<Rightarrow> ('i \<Rightarrow> 'a run) \<Rightarrow> 'a list \<Rightarrow> 'a list run" where
  "forPush [] blk acc = return acc"
| "forPush (x # xs) blk acc = await (blk x) (\<lambda>y. forPush xs blk (acc @ [y]))"

text \<open>\<open>prisma.<model>.deleteMany()\<close> without a filter deletes every row of the table.\<close>

definition comment_deleteMany :: "nat run" where
  "comment_deleteMany d =
     (Inr (length (comments d)), d\<lparr>comments := []\<rparr>, [DeleteMany Comment (length (comments d))])"

definition postCategory_deleteMany :: "nat run" where
  "postCategory_deleteMany d =
     (Inr (length (postCategories d)), d\<lparr>postCategories := []\<rparr>,
      [DeleteMany PostCategory (length (postCategories d))])"

definition post_deleteMany :: "nat run" where
  "post_deleteMany d =
     (Inr (length (posts d)), d\<lparr>posts := []\<rparr>, [DeleteMany Post (length (posts d))])"

definition category_deleteMany :: "nat run" where
  "category_deleteMany d =
     (Inr (length (categories d)), d\<lparr>categories := []\<rparr>,
      [DeleteMany Category (length (categories d))])"

definition profile_deleteMany :: "nat run" where
  "profile_deleteMany d =
     (Inr (length (profiles d)), d\<lparr>profiles := []\<rparr>, [DeleteMany Profile (length (profiles d))])"

definition user_deleteMany :: "nat run" where
  "user_deleteMany d =
     (Inr (length (users d)), d\<lparr>users := []\<rparr>, [DeleteMany User (length (users d))])"

text \<open>\<open>prisma.category.create({ data: { name, color } })\<close>.\<close>

definition category_create :: "string \<Rightarrow> string \<Rightarrow> db \<Rightarrow> (js_error + category) \<times> db" where
  "category_create name color d =
     (let c = \<lparr>category_id = category_seq d, category_name = name,
               category_color = Some color\<rparr>
      in (Inr c, d\<lparr>categories := categories d @ [c], category_seq := category_seq d + 1\<rparr>))"

record post_data =
  pd_title :: string
  pd_content :: string
  pd_published :: bool
  pd_views :: int
  pd_authorId :: int

text \<open>
  \<open>prisma.post.create({ data })\<close> at time \<open>now\<close>: P2003 when no user has the
  \<open>authorId\<close>.
\<close>

definition post_create :: "int \<Rightarrow> post_data \<Rightarrow> db \<Rightarrow> (js_error + post) \<times> db" where
  "post_create now pd d =
     (let i = post_seq d; d1 = d\<lparr>post_seq := i + 1\<rparr> in
      if findUser (pd_authorId pd) d = None then (Inl foreign_key_violation, d1)
      else
        let p = \<lparr>post_id = i, post_title = pd_title pd, post_content = Some (pd_content pd),
                 post_published = pd_published pd, post_views = pd_views pd,
                 post_authorId = pd_authorId pd, post_createdAt = now\<rparr>
        in (Inr p, d1\<lparr>posts := posts d1 @ [p]\<rparr>))"

text \<open>
  \<open>prisma.postCategory.create({ data: { postId, categoryId } })\<close>: P2002 when the
  pair is there already, P2003 when the post or the category is missing.
\<close>

definition postCategory_create :: "int \<Rightarrow> int \<Rightarrow> db \<Rightarrow> (js_error + postCategory) \<times> db" where
  "postCategory_create pid cid d =
     (let pc = \<lparr>pc_postId = pid, pc_categoryId = cid\<rparr> in
      if pc \<in> set (postCategories d) then (Inl unique_violation, d)
      else if findPost pid d = None \<or> findCategory cid d = None
      then (Inl foreign_key_violation, d)
      else (Inr pc, d\<lparr>postCategories := postCategories d @ [pc]\<rparr>))"

text \<open>
  \<open>prisma.comment.create({ data: { content, authorId, postId } })\<close>: P2003 when the
  author or the post is missing.
\<close>

definition comment_create :: "string \<Rightarrow> int \<Rightarrow> int \<Rightarrow> db \<Rightarrow> (js_error + comment) \<times> db" where
  "comment_create content aid pid d =
     (let i = comment_seq d; d1 = d\<lparr>comment_seq := i + 1\<rparr> in
      if findUser aid d = None \<or> findPost pid d = None then (Inl foreign_key_violation, d1)
      else
        let c = \<lparr>comment_id = i, comment_content = content, comment_authorId = aid,
                 comment_postId = pid\<rparr>
        in (Inr c, d1\<lparr>comments := comments d1 @ [c]\<rparr>))"

subsection \<open>The values faker draws\<close>

text \<open>
  The random values are the script's input. They are given per round of the loop that
  draws them, with the instant of the insert (the \<open>now()\<close> of the database).
  \<open>arrayElement\<close> and \<open>arrayElements\<close> are given by the positions they pick.
\<close>

record fake_user =
  fu_email :: string
  fu_fullName :: string
  fu_age :: int
  fu_bio :: string
  fu_avatar :: string
  fu_url :: string
  fu_city :: string
  fu_country :: string
  fu_now :: int

record fake_comment =
  fc_randomUser :: nat
  fc_paragraph :: string

record fake_post =
  fp_sentence :: string
  fp_paragraphs :: string
  fp_boolean :: bool
  fp_views :: int
  fp_now :: int
  fp_randomCategories :: "nat list"
  fp_commentCount :: int
  fp_comment :: "nat \<Rightarrow> fake_comment"

record faker =
  fk_user :: "nat \<Rightarrow> fake_user"
  fk_postCount :: "nat \<Rightarrow> int"
  fk_post :: "nat \<Rightarrow> nat \<Rightarrow> fake_post"

text \<open>
  Reading a property of an array element: of \<open>undefined\<close> (a position outside the
  array) it is a TypeError.
\<close>

definition element :: "'a list \<Rightarrow> nat \<Rightarrow> 'a run" where
  "element xs k = (if k < length xs then return (xs ! k) else throw (Error ''TypeError''))"

subsection \<open>main\<close>

text \<open>\<open>role: i === 0 ? 'ADMIN' : i === 1 ? 'MODERATOR' : 'USER'\<close>.\<close>

definition role_of_index :: "nat \<Rightarrow> role" where
  "role_of_index i = (if i = 0 then ADMIN else if i = 1 then MODERATOR else USER)"

definition seed_user_data :: "fake_user \<Rightarrow> nat \<Rightarrow> user_data" where
  "seed_user_data f i =
     \<lparr>ud_email = Some (fu_email f), ud_name = Some (fu_fullName f), ud_age = Some (fu_age f),
      ud_role = Some (role_of_index i),
      ud_profile = Some \<lparr>pd_bio = Some (fu_bio f), pd_avatar = Some (fu_avatar f),
                         pd_website = Some (fu_url f),
                         pd_location = Some (fu_city f @ '', '' @ fu_country f)\<rparr>\<rparr>"

text \<open>The array of \<open>Promise.all\<close>, in the order of the array.\<close>

definition create_categories :: "category list run" where
  "create_categories =
     await (logged (Create Category) (category_create ''Technology'' ''#3B82F6'')) (\<lambda>c0.
     await (logged (Create Category) (category_create ''Programming'' ''#10B981'')) (\<lambda>c1.
     await (logged (Create Category) (category_create ''Design'' ''#F59E0B'')) (\<lambda>c2.
     await (logged (Create Category) (category_create ''Business'' ''#EF4444'')) (\<lambda>c3.
     return [c0, c1, c2, c3]))))"

text \<open>The body of the loop over the users: round \<open>i\<close> yields the user it pushes.\<close>

definition create_user :: "faker \<Rightarrow> nat \<Rightarrow> user run" where
  "create_user fk i =
     await (logged (Create User)
              (user_create (fu_now (fk_user fk i)) (seed_user_data (fk_user fk i) i)))
       (\<lambda>user. return (uv_user user))"

text \<open>\<open>for (let i = 0; i < 10; i++) { ...; users.push(user) }\<close>.\<close>

definition create_users :: "faker \<Rightarrow> user list run" where
  "create_users fk = forPush [0..<10] (create_user fk) []"

text \<open>The body of the loop over the posts of one user.\<close>

definition create_post :: "category list \<Rightarrow> user list \<Rightarrow> user \<Rightarrow> fake_post \<Rightarrow> unit run" where
  "create_post cats us user f =
     await (logged (Create Post)
              (post_create (fp_now f)
                 \<lparr>pd_title = fp_sentence f, pd_content = fp_paragraphs f,
                  pd_published = fp_boolean f, pd_views = fp_views f,
                  pd_authorId = user_id user\<rparr>)) (\<lambda>post.
     await (forEach (fp_randomCategories f) (\<lambda>k.
              await (element cats k) (\<lambda>category.
              await (logged (Create PostCategory)
                       (postCategory_create (post_id post) (category_id category))) (\<lambda>_.
              return ())))) (\<lambda>_.
     forEach [0..<nat (fp_commentCount f)] (\<lambda>j.
       await (element us (fc_randomUser (fp_comment f j))) (\<lambda>randomUser.
       await (logged (Create Comment)
                (comment_create (fc_paragraph (fp_comment f j)) (user_id randomUser)
                   (post_id post))) (\<lambda>_.
       return ())))))"

definition create_posts :: "faker \<Rightarrow> category list \<Rightarrow> user list \<Rightarrow> unit run" where
  "create_posts fk cats us =
     forEach (enumerate 0 us) (\<lambda>(u, user).
       forEach [0..<nat (fk_postCount fk u)] (\<lambda>i. create_post cats us user (fk_post fk u i)))"

record stats =
  st_users :: nat
  st_profiles :: nat
  st_posts :: nat
  st_categories :: nat
  st_comments :: nat
  st_postCategories :: nat

definition count_rows :: "model \<Rightarrow> (db \<Rightarrow> nat) \<Rightarrow> nat run" where
  "count_rows m f d = (Inr (f d), d, [Count m])"

definition show_statistics :: "stats run" where
  "show_statistics =
     await (count_rows User (\<lambda>d. length (users d))) (\<lambda>n_users.
     await (count_rows Profile (\<lambda>d. length (profiles d))) (\<lambda>n_profiles.
     await (count_rows Post (\<lambda>d. length (posts d))) (\<lambda>n_posts.
     await (count_rows Category (\<lambda>d. length (categories d))) (\<lambda>n_categories.
     await (count_rows Comment (\<lambda>d. length (comments d))) (\<lambda>n_comments.
     await (count_rows PostCategory (\<lambda>d. length (postCategories d))) (\<lambda>n_postCategories.
     return \<lparr>st_users = n_users, st_profiles = n_profiles, st_posts = n_posts,
             st_categories = n_categories, st_comments = n_comments,
             st_postCategories = n_postCategories\<rparr>))))))"

text \<open>The statements of \<open>main\<close> after the clearing of the tables.\<close>

definition populate :: "faker \<Rightarrow> stats run" where
  "populate fk =
     await create_categories (\<lambda>cats.
     await (create_users fk) (\<lambda>us.
     await (create_posts fk cats us) (\<lambda>_.
     show_statistics)))"

definition main :: "faker \<Rightarrow> stats run" where
  "main fk =
     await comment_deleteMany (\<lambda>_.
     await postCategory_deleteMany (\<lambda>_.
     await post_deleteMany (\<lambda>_.
     await category_deleteMany (\<lambda>_.
     await profile_deleteMany (\<lambda>_.
     await user_deleteMany (\<lambda>_.
     populate fk))))))"

subsection \<open>Properties of runs\<close>

text \<open>
  Predicates for the proofs about the script: the calls a run logs all satisfy \<open>P\<close>;
  a run leaves the users and the profiles as they are.
\<close>

fun is_deleteMany :: "call \<Rightarrow> bool" where
  "is_deleteMany (DeleteMany m n) = True"
| "is_deleteMany (Create m) = False"
| "is_deleteMany (Count m) = False"

definition emits :: "(call \<Rightarrow> bool) \<Rightarrow> 'a run \<Rightarrow> bool" where
  "emits P m = (\<forall>d. list_all P (snd (snd (m d))))"

definition keeps_users :: "'a run \<Rightarrow> bool" where
  "keeps_users m = (\<forall>d r d' t. m d = (r, d', t) \<longrightarrow> users d' = users d \<and> profiles d' = profiles d)"

section \<open>Example states\<close>

text \<open>A small database and a request body, on which the theorems below are instantiated.\<close>

definition alice :: user where
  "alice = \<lparr>user_id = 1, user_email = ''alice@example.com'', user_name = Some ''Alice'',
            user_age = Some 30, user_role = ADMIN, user_isActive = True, user_createdAt = 100\<rparr>"

definition bob :: user where
  "bob = \<lparr>user_id = 2, user_email = ''bob@example.com'', user_name = None,
          user_age = None, user_role = USER, user_isActive = True, user_createdAt = 200\<rparr>"

definition hello :: post where
  "hello = \<lparr>post_id = 7, post_title = ''Hello'', post_content = None, post_published = True,
            post_views = 3, post_authorId = 1, post_createdAt = 300\<rparr>"

definition draft :: post where
  "draft = \<lparr>post_id = 8, post_title = ''Draft'', post_content = Some ''text'',
            post_published = False, post_views = 0, post_authorId = 2, post_createdAt = 400\<rparr>"

definition example_db :: db where
  "example_db = \<lparr>users = [alice, bob], profiles = [], posts = [hello, draft], categories = [],
     postCategories = [], comments = [], user_seq = 3, profile_seq = 1, post_seq = 9,
     category_seq = 1, comment_seq = 1\<rparr>"



definition unpublished_query :: search_query where
  "unpublished_query = \<lparr>sq_q = None, sq_category = None, sq_author = None,
     sq_published = Some ''false'', sq_min_views = None, sq_date_from = None,
     sq_date_to = None, sq_page = None, sq_limit = None\<rparr>"

definition all_posts_query :: search_query where
  "all_posts_query = \<lparr>sq_q = None, sq_category = None, sq_author = None,
     sq_published = None, sq_min_views = None, sq_date_from = None,
     sq_date_to = None, sq_page = None, sq_limit = Some ''1''\<rparr>"


definition example_faker :: faker where
  "example_faker =
     \<lparr>fk_user = (\<lambda>i. \<lparr>fu_email = ''user'' @ replicate i CHR ''x'' @ ''@example.com'',
                       fu_fullName = ''Test User'', fu_age = 18 + int i, fu_bio = ''Bio'',
                       fu_avatar = ''avatar.png'', fu_url = ''https://example.com'',
                       fu_city = ''Kyiv'', fu_country = ''Ukraine'', fu_now = int i\<rparr>),
      fk_postCount = (\<lambda>u. 1),
      fk_post = (\<lambda>u i. \<lparr>fp_sentence = ''Title'', fp_paragraphs = ''Text'',
                         fp_boolean = True, fp_views = 5, fp_now = 100 + int u,
                         fp_randomCategories = [0, 2], fp_commentCount = 1,
                         fp_comment = (\<lambda>j. \<lparr>fc_randomUser = 3, fc_paragraph = ''Nice''\<rparr>)\<rparr>)\<rparr>"

section \<open>Lookups\<close>

lemma find_map_authorId:
  "find (\<lambda>q. post_id q = i) (map (\<lambda>q. if post_id q = i then q\<lparr>post_authorId := a\<rparr> else q) xs)
   = map_option (\<lambda>q. q\<lparr>post_authorId := a\<rparr>) (find (\<lambda>q. post_id q = i) xs)"
  by (induction xs) auto

lemma findUserByEmail_Some: "findUserByEmail e d = Some u \<Longrightarrow> user_email u = e \<and> u \<in> set (users d)"
  by (auto simp: findUserByEmail_def find_Some_iff)

lemma findUser_Some: "findUser i d = Some u \<Longrightarrow> user_id u = i \<and> u \<in> set (users d)"
  by (auto simp: findUser_def find_Some_iff)

lemma findUser_mem: "u \<in> set (users d) \<Longrightarrow> findUser (user_id u) d \<noteq> None"
  by (auto simp: findUser_def find_None_iff)




lemma user_create_out_of_range:
  assumes "ud_email b = Some e" and "\<not> Int32_opt (ud_age b)"
  shows "user_create t b d = (Inl value_out_of_range, d)"
  using assms by (simp add: user_create_def Let_def)

section \<open>Creating, updating and deleting users\<close>










section \<open>The transfer of a post\<close>

text \<open>
  C1. When the post with the id exists and a user has the email, the transfer answers 200,
  the post of that id has the user's id as its \<open>authorId\<close> afterwards (in the database
  and in the response), and \<open>previousAuthor\<close> is the author the post had before, as
  the database held it before the update. When no user has the email, the answer is 400
  'New author not found' and the database is the one before the request.
\<close>

theorem transfer_changes_author_or_nothing:
  "(findPost i d = Some p \<and> findUserByEmail e d = Some u \<longrightarrow>
      (\<exists>pv d'. post_api_posts_id_transfer i (Some e) d
                 = (Response 200 (TransferBody pv (findUser (post_authorId p) d)), d')
          \<and> pv_post pv = p\<lparr>post_authorId := user_id u\<rparr>
          \<and> findPost i d' = Some (p\<lparr>post_authorId := user_id u\<rparr>)))
   \<and> (findUserByEmail e d = None \<longrightarrow>
        post_api_posts_id_transfer i (Some e) d
          = (Response 400 (ErrorBody ''New author not found''), d))"
proof (intro conjI impI)
  assume h: "findPost i d = Some p \<and> findUserByEmail e d = Some u"
  then have fu: "findUser (user_id u) d \<noteq> None"
    using findUserByEmail_Some findUser_mem by blast
  from h fu show "\<exists>pv d'. post_api_posts_id_transfer i (Some e) d
                 = (Response 200 (TransferBody pv (findUser (post_authorId p) d)), d')
          \<and> pv_post pv = p\<lparr>post_authorId := user_id u\<rparr>
          \<and> findPost i d' = Some (p\<lparr>post_authorId := user_id u\<rparr>)"
    by (auto simp: post_api_posts_id_transfer_def transaction_def transfer_tx_def
        user_findUnique_email_def post_findUnique_author_def post_update_authorId_def
        Let_def findPost_def find_map_authorId)
next
  assume "findUserByEmail e d = None"
  then show "post_api_posts_id_transfer i (Some e) d
          = (Response 400 (ErrorBody ''New author not found''), d)"
    by (simp add: post_api_posts_id_transfer_def transaction_def transfer_tx_def
        user_findUnique_email_def post_api_posts_id_transfer_catch_def Error_def)
qed

theorem transfer_changes_author_or_nothing_witness:
  "findPost 7 example_db = Some hello
   \<and> findUserByEmail ''bob@example.com'' example_db = Some bob
   \<and> (\<exists>pv d'. post_api_posts_id_transfer 7 (Some ''bob@example.com'') example_db
                 = (Response 200 (TransferBody pv (Some alice)), d')
          \<and> post_authorId (pv_post pv) = 2
          \<and> findPost 7 d' = Some (hello\<lparr>post_authorId := 2\<rparr>))
   \<and> findUserByEmail ''carol@example.com'' example_db = None
   \<and> post_api_posts_id_transfer 7 (Some ''carol@example.com'') example_db
       = (Response 400 (ErrorBody ''New author not found''), example_db)"
proof -
  have h1: "findPost 7 example_db = Some hello"
    by (simp add: findPost_def example_db_def hello_def draft_def)
  have h2: "findUserByEmail ''bob@example.com'' example_db = Some bob"
    by (simp add: findUserByEmail_def example_db_def alice_def bob_def)
  have h3: "findUserByEmail ''carol@example.com'' example_db = None"
    by (simp add: findUserByEmail_def example_db_def alice_def bob_def)
  have a: "findUser (post_authorId hello) example_db = Some alice"
    by (simp add: findUser_def example_db_def alice_def bob_def hello_def)
  have b: "user_id bob = 2"
    by (simp add: bob_def)
  from transfer_changes_author_or_nothing [of 7 example_db hello "''bob@example.com''" bob]
    h1 h2
  have first: "\<exists>pv d'. post_api_posts_id_transfer 7 (Some ''bob@example.com'') example_db
                 = (Response 200 (TransferBody pv (Some alice)), d')
          \<and> post_authorId (pv_post pv) = 2
          \<and> findPost 7 d' = Some (hello\<lparr>post_authorId := 2\<rparr>)"
    unfolding a b by auto
  from transfer_changes_author_or_nothing [of 7 example_db hello "''carol@example.com''" bob]
    h3
  have second: "post_api_posts_id_transfer 7 (Some ''carol@example.com'') example_db
       = (Response 400 (ErrorBody ''New author not found''), example_db)"
    by blast
  from h1 h2 first h3 second show ?thesis
    by blast
qed

section \<open>The catch clauses\<close>

text \<open>
  Every handler but the transfer answers an error whose code is neither P2002 nor P2025
  with status 500.
\<close>

lemma other_handlers_unrecognized_error:
  assumes "code e \<noteq> Some ''P2002''" and "code e \<noteq> Some ''P2025''"
  shows "status (get_api_users_catch e) = 500"
    and "status (get_api_users_id_catch e) = 500"
    and "status (post_api_users_catch e) = 500"
    and "status (put_api_users_id_catch e) = 500"
    and "status (delete_api_users_id_catch e) = 500"
    and "status (get_api_analytics_posts_catch e) = 500"
    and "status (get_api_posts_search_catch e) = 500"
    and "status (get_api_raw_user_activity_catch e) = 500"
  using assms
  by (simp_all add: get_api_users_catch_def get_api_users_id_catch_def post_api_users_catch_def
      put_api_users_id_catch_def delete_api_users_id_catch_def get_api_analytics_posts_catch_def
      get_api_posts_search_catch_def get_api_raw_user_activity_catch_def)

text \<open>
  C5. The claim is that every handler, the transfer endpoint in particular, answers an
  error of the query layer without a recognised code with a 5xx status. The catch clause
  of the transfer answers such an error (here a lost connection, which carries no code)
  with status 400.
\<close>

theorem transfer_catch_unrecognized_error:
  "post_api_posts_id_transfer_catch (JsError None ''Server has closed the connection'')
   = Response 400 (ErrorBody ''Server has closed the connection'')"
  by (simp add: post_api_posts_id_transfer_catch_def)

section \<open>Search and pagination\<close>




subsection \<open>Pages\<close>

lemma set_slice: "set (slice skip tk xs) \<subseteq> set xs"
proof (cases "0 \<le> tk")
  case True
  then show ?thesis
    by (auto simp: slice_def dest!: in_set_takeD in_set_dropD)
next
  case False
  have "set (take (nat (- tk)) (drop (nat skip) (rev xs))) \<subseteq> set (rev xs)"
    by (auto dest!: in_set_takeD in_set_dropD)
  with False show ?thesis
    by (simp add: slice_def)
qed




lemma set_posts_desc: "set (posts_desc ps) = set ps"
  by (simp add: posts_desc_def)





















lemma negative_limit_numbers:
  "ToNumber (or_default 1 None) = Some 1"
  "parseInt (or_default 1 None) = Some 1"
  "ToNumber (or_default 10 (Some ''-1'')) = Some (- 1)"
  "parseInt (or_default 10 (Some ''-1'')) = Some (- 1)"
  "ToNumber (or_default 1 (Some ''2'')) = Some 2"
  "parseInt (or_default 1 (Some ''2'')) = Some 2"
  "ToNumber (or_default 10 (Some ''10e-1'')) = Some 1"
  "parseInt (or_default 10 (Some ''10e-1'')) = Some 10"
  "ToNumber (or_default 10 None) = Some 10"
  "parseInt (or_default 10 None) = Some 10"
  by code_simp+


text \<open>
  The filters behave as the query layer runs them: a bound on the views outside the
  column's range is answered 500, and \<open>_\<close> in a search is a wildcard.
\<close>

lemma min_views_out_of_range:
  "status (get_api_posts_search
     \<lparr>sq_q = None, sq_category = None, sq_author = None, sq_published = None,
      sq_min_views = Some ''3000000000'', sq_date_from = None, sq_date_to = None,
      sq_page = None, sq_limit = None\<rparr> example_db) = 500"
proof -
  have "parseInt (Str ''3000000000'') = Some 3000000000"
    by code_simp
  then show ?thesis
    by (simp add: get_api_posts_search_def negative_limit_numbers js_times_def js_minus_def
        skip_take_def search_where_def truthy_def post_findMany_def post_where_wellformed_def
        post_where_in_range_def Int32_opt_def Int32_def get_api_posts_search_catch_def Let_def)
qed

lemma search_wildcard: "user_cond_holds (NameContains ''a_i'') alice"
  by code_simp

subsection \<open>The published parameter\<close>

lemma published_filter_only_unpublished:
  assumes "pw_published w = Some False" and "post_matches d w p"
  shows "\<not> post_published p"
  using assms by (simp add: post_matches_def)

lemma published_where:
  "pw_published (search_where q) = (case sq_published q of None \<Rightarrow> None | Some s \<Rightarrow> Some (s = ''true''))"
  by (simp add: search_where_def)

lemma post_cond_holds_published:
  "post_cond_holds c (p\<lparr>post_published := b\<rparr>) = post_cond_holds c p"
  by (cases c) simp_all

lemma published_unconstrained:
  assumes "pw_published w = None"
  shows "post_matches d w (p\<lparr>post_published := b\<rparr>) = post_matches d w p"
  using assms by (simp add: post_matches_def post_cond_holds_published cong: option.case_cong)

lemma post_findMany_rows:
  assumes "post_findMany w sk tk d = Inr xs"
  shows "\<exists>s t. xs = map (post_view_of d)
                    (slice s t (posts_desc (filter (post_matches d w) (posts d))))"
  using assms
  by (fastforce simp: post_findMany_def split: option.splits if_splits)

lemma search_data:
  assumes "get_api_posts_search q d = Response 200 (PostsPage ps pgn)"
  shows "set ps \<subseteq> post_view_of d ` set (filter (post_matches d (search_where q)) (posts d))"
proof -
  define sk where "sk = js_times (js_minus (ToNumber (or_default 1 (sq_page q))) (Some 1))
                          (ToNumber (or_default 10 (sq_limit q)))"
  define tk where "tk = parseInt (or_default 10 (sq_limit q))"
  have g: "get_api_posts_search q d =
      (case post_findMany (search_where q) sk tk d of
         Inl error \<Rightarrow> get_api_posts_search_catch error
       | Inr xs \<Rightarrow> Response 200 (PostsPage xs
             \<lparr>page = parseInt (or_default 1 (sq_page q)), limit = tk,
              total = int (post_count (search_where q) d),
              totalPages = Math_ceil_div (post_count (search_where q) d) tk\<rparr>))"
    by (simp add: get_api_posts_search_def Let_def sk_def tk_def cong: sum.case_cong)
  show ?thesis
  proof (cases "post_findMany (search_where q) sk tk d")
    case (Inl e)
    with assms g show ?thesis
      by (simp add: get_api_posts_search_catch_def)
  next
    case (Inr xs)
    with assms g have "ps = xs"
      by simp
    with post_findMany_rows [OF Inr] obtain s t where ps: "ps = map (post_view_of d)
        (slice s t (posts_desc (filter (post_matches d (search_where q)) (posts d))))"
      by blast
    have "set (slice s t (posts_desc (filter (post_matches d (search_where q)) (posts d))))
          \<subseteq> set (filter (post_matches d (search_where q)) (posts d))"
      using set_slice [of s t "posts_desc (filter (post_matches d (search_where q)) (posts d))"]
      by (simp only: set_posts_desc)
    then show ?thesis
      unfolding ps set_map by (rule image_mono)
  qed
qed

text \<open>
  C9. When the \<open>published\<close> parameter is present with the string \<open>s\<close>, the where-filter
  of the search has \<open>published\<close> equal to \<open>(s = 'true')\<close>; so for every present value
  other than 'true' each post of an answered page is unpublished. When the parameter is
  absent the filter has no \<open>published\<close> clause, and whether a post matches does not
  depend on its \<open>published\<close> field.
\<close>

theorem published_parameter_filter:
  "(sq_published q = Some s \<longrightarrow> pw_published (search_where q) = Some (s = ''true''))
   \<and> (sq_published q = Some s \<and> s \<noteq> ''true''
        \<and> get_api_posts_search q d = Response 200 (PostsPage ps pgn)
      \<longrightarrow> (\<forall>pv \<in> set ps. \<not> post_published (pv_post pv)))
   \<and> (sq_published q = None \<longrightarrow>
        pw_published (search_where q) = None
        \<and> (\<forall>p b. post_matches d (search_where q) (p\<lparr>post_published := b\<rparr>)
                  = post_matches d (search_where q) p))"
proof (intro conjI impI)
  assume "sq_published q = Some s"
  then show "pw_published (search_where q) = Some (s = ''true'')"
    by (simp add: published_where)
next
  assume h: "sq_published q = Some s \<and> s \<noteq> ''true''
        \<and> get_api_posts_search q d = Response 200 (PostsPage ps pgn)"
  then have w: "pw_published (search_where q) = Some False"
    by (simp add: published_where)
  from h have sub: "set ps \<subseteq> post_view_of d ` set (filter (post_matches d (search_where q)) (posts d))"
    using search_data by blast
  show "\<forall>pv \<in> set ps. \<not> post_published (pv_post pv)"
  proof
    fix pv assume "pv \<in> set ps"
    with sub obtain p where p: "pv = post_view_of d p"
      and m: "p \<in> set (filter (post_matches d (search_where q)) (posts d))"
      by blast
    from m have "post_matches d (search_where q) p"
      by simp
    with w have "\<not> post_published p"
      by (rule published_filter_only_unpublished)
    with p show "\<not> post_published (pv_post pv)"
      by (simp add: post_view_of_def)
  qed
next
  assume "sq_published q = None"
  then show "pw_published (search_where q) = None"
    by (simp add: published_where)
next
  assume n: "sq_published q = None"
  then have "pw_published (search_where q) = None"
    by (simp add: published_where)
  then show "\<forall>p b. post_matches d (search_where q) (p\<lparr>post_published := b\<rparr>)
                  = post_matches d (search_where q) p"
    by (simp add: published_unconstrained)
qed

lemma example_unpublished:
  "get_api_posts_search unpublished_query example_db
   = Response 200 (PostsPage [post_view_of example_db draft]
       \<lparr>page = Some 1, limit = Some 10, total = 1, totalPages = Num 1\<rparr>)"
proof -
  show ?thesis
    by (simp add: get_api_posts_search_def unpublished_query_def search_where_def truthy_def
        negative_limit_numbers js_times_def js_minus_def skip_take_def
        post_findMany_def post_where_wellformed_def post_where_in_range_def
        post_where_runs_def post_count_def post_matches_def example_db_def hello_def draft_def
        slice_def posts_desc_def Math_ceil_div_def Let_def)
qed

theorem published_parameter_filter_witness:
  "sq_published unpublished_query = Some ''false'' \<and> ''false'' \<noteq> ''true''
   \<and> get_api_posts_search unpublished_query example_db
       = Response 200 (PostsPage [post_view_of example_db draft]
           \<lparr>page = Some 1, limit = Some 10, total = 1, totalPages = Num 1\<rparr>)
   \<and> pw_published (search_where unpublished_query) = Some False
   \<and> \<not> post_published (pv_post (post_view_of example_db draft))
   \<and> sq_published all_posts_query = None
   \<and> pw_published (search_where all_posts_query) = None"
proof -
  have h1: "sq_published unpublished_query = Some ''false''"
    by (simp add: unpublished_query_def)
  have h2: "''false'' \<noteq> ''true''"
    by simp
  have h3: "sq_published all_posts_query = None"
    by (simp add: all_posts_query_def)
  note t = published_parameter_filter [of unpublished_query "''false''" example_db
      "[post_view_of example_db draft]"
      "\<lparr>page = Some 1, limit = Some 10, total = 1, totalPages = Num 1\<rparr>"]
  from t h1 h2 example_unpublished
  have a: "pw_published (search_where unpublished_query) = Some False
      \<and> \<not> post_published (pv_post (post_view_of example_db draft))"
    by simp
  from published_parameter_filter [of all_posts_query "''false''" example_db] h3
  have b: "pw_published (search_where all_posts_query) = None"
    by blast
  from h1 h2 h3 a b example_unpublished show ?thesis
    by blast
qed

section \<open>The seed script: the clearing of the tables\<close>

lemma await_cases:
  assumes "await m f d = (r, d', t)"
  obtains (fail) e where "m d = (Inl e, d', t)" and "r = Inl e"
  | (ok) x d1 t1 t2 where "m d = (Inr x, d1, t1)" and "f x d1 = (r, d', t2)" and "t = t1 @ t2"
  using assms unfolding await_def
  by (auto split: prod.splits sum.splits)

lemma emits_return: "emits P (return x)"
  by (simp add: emits_def return_def)

lemma emits_throw: "emits P (throw e)"
  by (simp add: emits_def throw_def)

lemma emits_logged: "P c \<Longrightarrow> emits P (logged c f)"
  by (simp add: emits_def logged_def split: prod.splits)

lemma emits_count_rows: "P (Count m) \<Longrightarrow> emits P (count_rows m f)"
  by (simp add: emits_def count_rows_def)

lemma emits_element: "emits P (element xs k)"
  by (simp add: element_def emits_return emits_throw)

lemma emits_await:
  assumes "emits P m" and "\<And>x. emits P (f x)"
  shows "emits P (await m f)"
  unfolding emits_def
proof
  fix d
  obtain r d' t where a: "await m f d = (r, d', t)"
    by (metis prod_cases3)
  from a have "list_all P t"
  proof (cases rule: await_cases)
    case (fail e)
    with assms(1) show ?thesis
      unfolding emits_def by (metis snd_conv)
  next
    case (ok x d1 t1 t2)
    from ok(1) assms(1) have "list_all P t1"
      unfolding emits_def by (metis snd_conv)
    moreover from ok(2) assms(2) have "list_all P t2"
      unfolding emits_def by (metis snd_conv)
    ultimately show ?thesis
      using ok(3) by simp
  qed
  with a show "list_all P (snd (snd (await m f d)))"
    by simp
qed

lemma emits_forEach:
  assumes "\<And>x. emits P (blk x)"
  shows "emits P (forEach xs blk)"
  by (induction xs) (simp_all add: emits_return emits_await assms)

lemma emits_forPush:
  assumes "\<And>x. emits P (blk x)"
  shows "emits P (forPush xs blk acc)"
  by (induction xs arbitrary: acc) (simp_all add: emits_return emits_await assms)

lemma emits_create_categories: "(\<And>m. P (Create m)) \<Longrightarrow> emits P create_categories"
  unfolding create_categories_def
  by (intro emits_await emits_logged emits_return) simp_all

lemma emits_create_users: "(\<And>m. P (Create m)) \<Longrightarrow> emits P (create_users fk)"
  unfolding create_users_def create_user_def
  by (intro emits_forPush emits_await emits_logged emits_return) simp_all

lemma emits_create_post: "(\<And>m. P (Create m)) \<Longrightarrow> emits P (create_post cats us user f)"
  unfolding create_post_def
  by (intro emits_forEach emits_await emits_logged emits_return emits_element) simp_all

lemma emits_create_posts: "(\<And>m. P (Create m)) \<Longrightarrow> emits P (create_posts fk cats us)"
  unfolding create_posts_def
  by (intro emits_forEach) (simp add: split_def emits_forEach emits_create_post)

lemma emits_show_statistics: "(\<And>m. P (Count m)) \<Longrightarrow> emits P show_statistics"
  unfolding show_statistics_def
  by (intro emits_await emits_count_rows emits_return) simp_all

lemma emits_populate:
  assumes "\<And>m. P (Create m)" and "\<And>m. P (Count m)"
  shows "emits P (populate fk)"
  unfolding populate_def
  by (intro emits_await emits_create_categories emits_create_users emits_create_posts
      emits_show_statistics assms)

lemma main_after_clear:
  assumes "populate fk (d\<lparr>comments := [], postCategories := [], posts := [], categories := [],
                          profiles := [], users := []\<rparr>) = (r, d', rest)"
  shows "main fk d =
     (r, d', [DeleteMany Comment (length (comments d)),
              DeleteMany PostCategory (length (postCategories d)),
              DeleteMany Post (length (posts d)),
              DeleteMany Category (length (categories d)),
              DeleteMany Profile (length (profiles d)),
              DeleteMany User (length (users d))] @ rest)"
  using assms
  by (simp add: main_def await_def comment_deleteMany_def postCategory_deleteMany_def
      post_deleteMany_def category_deleteMany_def profile_deleteMany_def user_deleteMany_def)

text \<open>
  C7. Every run of \<open>main\<close> starts with six \<open>deleteMany\<close> calls, on comments,
  post-category rows, posts, categories, profiles and users in this order; each deletes
  all rows of its table (its count is the size of the table before the run). Every other
  call of the run, so every insertion, is made after them, by the rest of the script on
  the six emptied tables, and none of them is a deletion.
\<close>

theorem clear_phase_order:
  "\<exists>r d' rest.
     populate fk (d\<lparr>comments := [], postCategories := [], posts := [], categories := [],
                    profiles := [], users := []\<rparr>) = (r, d', rest)
     \<and> main fk d =
         (r, d', [DeleteMany Comment (length (comments d)),
                  DeleteMany PostCategory (length (postCategories d)),
                  DeleteMany Post (length (posts d)),
                  DeleteMany Category (length (categories d)),
                  DeleteMany Profile (length (profiles d)),
                  DeleteMany User (length (users d))] @ rest)
     \<and> filter is_deleteMany rest = []"
proof -
  obtain r d' rest where p:
    "populate fk (d\<lparr>comments := [], postCategories := [], posts := [], categories := [],
                    profiles := [], users := []\<rparr>) = (r, d', rest)"
    by (metis prod_cases3)
  have "emits (\<lambda>c. \<not> is_deleteMany c) (populate fk)"
    by (rule emits_populate) simp_all
  with p have "list_all (\<lambda>c. \<not> is_deleteMany c) rest"
    unfolding emits_def by (metis snd_conv)
  then have "filter is_deleteMany rest = []"
    by (simp add: list_all_iff filter_empty_conv)
  with p main_after_clear [OF p] show ?thesis
    by blast
qed

theorem clear_phase_order_witness:
  "take 6 (snd (snd (main example_faker example_db)))
   = [DeleteMany Comment 0, DeleteMany PostCategory 0, DeleteMany Post 2,
      DeleteMany Category 0, DeleteMany Profile 0, DeleteMany User 2]"
proof -
  from clear_phase_order [of example_faker example_db] obtain r d' rest where
    "main example_faker example_db =
         (r, d', [DeleteMany Comment (length (comments example_db)),
                  DeleteMany PostCategory (length (postCategories example_db)),
                  DeleteMany Post (length (posts example_db)),
                  DeleteMany Category (length (categories example_db)),
                  DeleteMany Profile (length (profiles example_db)),
                  DeleteMany User (length (users example_db))] @ rest)"
    by blast
  then show ?thesis
    by (simp add: example_db_def)
qed

section \<open>The seed script: users, profiles and roles\<close>

lemma keeps_usersD:
  "keeps_users m \<Longrightarrow> m d = (r, d', t) \<Longrightarrow> users d' = users d \<and> profiles d' = profiles d"
  unfolding keeps_users_def by blast

lemma keeps_users_return: "keeps_users (return x)"
  by (simp add: keeps_users_def return_def)

lemma keeps_users_throw: "keeps_users (throw e)"
  by (simp add: keeps_users_def throw_def)

lemma keeps_users_element: "keeps_users (element xs k)"
  by (simp add: element_def keeps_users_return keeps_users_throw)

lemma keeps_users_count_rows: "keeps_users (count_rows m f)"
  by (simp add: keeps_users_def count_rows_def)

lemma keeps_users_logged:
  assumes "\<And>d r d'. f d = (r, d') \<Longrightarrow> users d' = users d \<and> profiles d' = profiles d"
  shows "keeps_users (logged c f)"
  unfolding keeps_users_def logged_def using assms
  by (auto split: prod.splits)

lemma keeps_users_await:
  assumes "keeps_users m" and "\<And>x. keeps_users (f x)"
  shows "keeps_users (await m f)"
  unfolding keeps_users_def
proof (intro allI impI)
  fix d r d' t
  assume "await m f d = (r, d', t)"
  then show "users d' = users d \<and> profiles d' = profiles d"
  proof (cases rule: await_cases)
    case (fail e)
    with assms(1) show ?thesis
      by (simp add: keeps_usersD)
  next
    case (ok x d1 t1 t2)
    from keeps_usersD [OF assms(1) ok(1)] keeps_usersD [OF assms(2) ok(2)]
    show ?thesis by simp
  qed
qed

lemma keeps_users_forEach:
  assumes "\<And>x. keeps_users (blk x)"
  shows "keeps_users (forEach xs blk)"
  by (induction xs) (simp_all add: keeps_users_return keeps_users_await assms)

lemma category_create_keeps:
  "category_create name color d = (r, d') \<Longrightarrow> users d' = users d \<and> profiles d' = profiles d"
  by (auto simp: category_create_def Let_def)

lemma post_create_keeps:
  "post_create now pd d = (r, d') \<Longrightarrow> users d' = users d \<and> profiles d' = profiles d"
  by (auto simp: post_create_def Let_def split: if_splits)

lemma postCategory_create_keeps:
  "postCategory_create pid cid d = (r, d') \<Longrightarrow> users d' = users d \<and> profiles d' = profiles d"
  by (auto simp: postCategory_create_def Let_def split: if_splits)

lemma comment_create_keeps:
  "comment_create content aid pid d = (r, d') \<Longrightarrow> users d' = users d \<and> profiles d' = profiles d"
  by (auto simp: comment_create_def Let_def split: if_splits)

lemma keeps_users_create_categories: "keeps_users create_categories"
  unfolding create_categories_def
  by (intro keeps_users_await keeps_users_logged keeps_users_return) (erule category_create_keeps)+

lemma keeps_users_create_post: "keeps_users (create_post cats us user f)"
  unfolding create_post_def
  by (intro keeps_users_await keeps_users_forEach keeps_users_logged keeps_users_return
        keeps_users_element)
     (erule post_create_keeps postCategory_create_keeps comment_create_keeps)+

lemma keeps_users_create_posts: "keeps_users (create_posts fk cats us)"
  unfolding create_posts_def
  by (intro keeps_users_forEach) (simp add: split_def keeps_users_forEach keeps_users_create_post)

lemma show_statistics_result:
  "show_statistics d =
     (Inr \<lparr>st_users = length (users d), st_profiles = length (profiles d),
            st_posts = length (posts d), st_categories = length (categories d),
            st_comments = length (comments d),
            st_postCategories = length (postCategories d)\<rparr>,
      d, [Count User, Count Profile, Count Post, Count Category, Count Comment,
          Count PostCategory])"
  by (simp add: show_statistics_def await_def count_rows_def return_def)

lemma create_user_result:
  assumes "create_user fk i d = (r, d1, t)"
  shows "(\<exists>e. r = Inl e \<and> users d1 = users d \<and> profiles d1 = profiles d)
       \<or> (\<exists>u p. r = Inr u \<and> users d1 = users d @ [u] \<and> profiles d1 = profiles d @ [p]
              \<and> user_role u = role_of_index i
              \<and> user_email u = fu_email (fk_user fk i)
              \<and> profile_userId p = user_id u
              \<and> profile_bio p = Some (fu_bio (fk_user fk i)))"
proof (cases "Int32_opt (Some (fu_age (fk_user fk i)))")
  case False
  with assms show ?thesis
    by (auto simp: create_user_def await_def logged_def return_def user_create_def
        seed_user_data_def Let_def)
next
  case True
  show ?thesis
  proof (cases "findUserByEmail (fu_email (fk_user fk i)) d")
    case None
    with assms True show ?thesis
      by (auto simp: create_user_def await_def logged_def return_def user_create_def
          seed_user_data_def new_profile_def Let_def)
  next
    case (Some v)
    with assms True show ?thesis
      by (auto simp: create_user_def await_def logged_def return_def user_create_def
          seed_user_data_def Let_def)
  qed
qed

lemma create_users_loop:
  assumes "forPush ixs (create_user fk) acc d = (r, d', t)"
  shows "\<exists>k us ps. k \<le> length ixs
           \<and> users d' = users d @ us \<and> profiles d' = profiles d @ ps
           \<and> map user_role us = map role_of_index (take k ixs)
           \<and> map user_email us = map (\<lambda>i. fu_email (fk_user fk i)) (take k ixs)
           \<and> map profile_userId ps = map user_id us
           \<and> map profile_bio ps = map (\<lambda>i. Some (fu_bio (fk_user fk i))) (take k ixs)
           \<and> (\<forall>res. r = Inr res \<longrightarrow> k = length ixs \<and> res = acc @ us)"
  using assms
proof (induction ixs arbitrary: acc d r d' t)
  case Nil
  then show ?case
    by (auto simp: return_def)
next
  case (Cons i ixs)
  from Cons.prems have
    "await (create_user fk i) (\<lambda>y. forPush ixs (create_user fk) (acc @ [y])) d = (r, d', t)"
    by simp
  then show ?case
  proof (cases rule: await_cases)
    case (fail e)
    from create_user_result [OF fail(1)]
    have "users d' = users d \<and> profiles d' = profiles d"
      by auto
    with fail(2) show ?thesis
      by (intro exI [of _ 0] exI [of _ "[]"]) simp
  next
    case (ok u d1 t1 t2)
    from create_user_result [OF ok(1)] obtain p where
      u: "users d1 = users d @ [u]" "profiles d1 = profiles d @ [p]"
         "user_role u = role_of_index i" "user_email u = fu_email (fk_user fk i)"
         "profile_userId p = user_id u" "profile_bio p = Some (fu_bio (fk_user fk i))"
      by auto
    from Cons.IH [OF ok(2)] obtain k us ps where
      ih: "k \<le> length ixs" "users d' = users d1 @ us" "profiles d' = profiles d1 @ ps"
          "map user_role us = map role_of_index (take k ixs)"
          "map user_email us = map (\<lambda>i. fu_email (fk_user fk i)) (take k ixs)"
          "map profile_userId ps = map user_id us"
          "map profile_bio ps = map (\<lambda>i. Some (fu_bio (fk_user fk i))) (take k ixs)"
          "\<forall>res. r = Inr res \<longrightarrow> k = length ixs \<and> res = (acc @ [u]) @ us"
      by blast
    show ?thesis
      using u ih
      by (intro exI [of _ "Suc k"] exI [of _ "u # us"] exI [of _ "p # ps"]) simp
  qed
qed

lemma populate_users:
  assumes "populate fk d = (r, d', t)"
  shows "\<exists>k us ps. k \<le> 10
           \<and> users d' = users d @ us \<and> profiles d' = profiles d @ ps
           \<and> map user_role us = map role_of_index [0..<k]
           \<and> map user_email us = map (\<lambda>i. fu_email (fk_user fk i)) [0..<k]
           \<and> map profile_userId ps = map user_id us
           \<and> map profile_bio ps = map (\<lambda>i. Some (fu_bio (fk_user fk i))) [0..<k]
           \<and> (\<forall>s. r = Inr s \<longrightarrow> k = 10 \<and> st_users s = length (users d')
                                      \<and> st_profiles s = length (profiles d'))"
proof -
  have none: ?thesis if "users d' = users d" and "profiles d' = profiles d" and "\<exists>e. r = Inl e"
    using that by (intro exI [of _ 0] exI [of _ "[]"]) auto
  from assms have
    "await create_categories (\<lambda>cats. await (create_users fk) (\<lambda>us.
       await (create_posts fk cats us) (\<lambda>_. show_statistics))) d = (r, d', t)"
    by (simp add: populate_def)
  then show ?thesis
  proof (cases rule: await_cases)
    case (fail e)
    with keeps_usersD [OF keeps_users_create_categories fail(1)] show ?thesis
      by (intro none) auto
  next
    case cats: (ok cats d1 t1 t2)
    note k1 = keeps_usersD [OF keeps_users_create_categories cats(1)]
    from cats(2) show ?thesis
    proof (cases rule: await_cases)
      case (fail e)
      from fail(1) have "forPush [0..<10] (create_user fk) [] d1 = (Inl e, d', t2)"
        by (simp add: create_users_def)
      from create_users_loop [OF this] obtain k us ps where
        "k \<le> 10" "users d' = users d1 @ us" "profiles d' = profiles d1 @ ps"
        "map user_role us = map role_of_index (take k [0..<10])"
        "map user_email us = map (\<lambda>i. fu_email (fk_user fk i)) (take k [0..<10])"
        "map profile_userId ps = map user_id us"
        "map profile_bio ps = map (\<lambda>i. Some (fu_bio (fk_user fk i))) (take k [0..<10])"
        by auto
      with k1 fail(2) show ?thesis
        by (intro exI [of _ k] exI [of _ us] exI [of _ ps]) (simp add: take_upt)
    next
      case us: (ok us0 d2 t3 t4)
      from us(1) have "forPush [0..<10] (create_user fk) [] d1 = (Inr us0, d2, t3)"
        by (simp add: create_users_def)
      from create_users_loop [OF this] obtain us ps where
        l: "users d2 = users d1 @ us" "profiles d2 = profiles d1 @ ps"
        "map user_role us = map role_of_index [0..<10]"
        "map user_email us = map (\<lambda>i. fu_email (fk_user fk i)) [0..<10]"
        "map profile_userId ps = map user_id us"
        "map profile_bio ps = map (\<lambda>i. Some (fu_bio (fk_user fk i))) [0..<10]"
        by auto
      from us(2) show ?thesis
      proof (cases rule: await_cases)
        case (fail e)
        note k3 = keeps_usersD [OF keeps_users_create_posts fail(1)]
        with k1 l fail(2) show ?thesis
          by (intro exI [of _ 10] exI [of _ us] exI [of _ ps]) simp
      next
        case (ok x d3 t5 t6)
        note k3 = keeps_usersD [OF keeps_users_create_posts ok(1)]
        from ok(2) have "d' = d3"
          and "r = Inr \<lparr>st_users = length (users d3), st_profiles = length (profiles d3),
            st_posts = length (posts d3), st_categories = length (categories d3),
            st_comments = length (comments d3),
            st_postCategories = length (postCategories d3)\<rparr>"
          by (auto simp: show_statistics_result)
        with k1 k3 l show ?thesis
          by (intro exI [of _ 10] exI [of _ us] exI [of _ ps]) auto
      qed
    qed
  qed
qed

lemma main_users:
  assumes "main fk d = (r, d', t)"
  shows "\<exists>k. k \<le> 10
           \<and> map user_role (users d') = map role_of_index [0..<k]
           \<and> map user_email (users d') = map (\<lambda>i. fu_email (fk_user fk i)) [0..<k]
           \<and> map profile_userId (profiles d') = map user_id (users d')
           \<and> map profile_bio (profiles d') = map (\<lambda>i. Some (fu_bio (fk_user fk i))) [0..<k]
           \<and> (\<forall>s. r = Inr s \<longrightarrow> k = 10 \<and> st_users s = length (users d')
                                      \<and> st_profiles s = length (profiles d'))"
proof -
  obtain r0 d0 rest where p:
    "populate fk (d\<lparr>comments := [], postCategories := [], posts := [], categories := [],
                    profiles := [], users := []\<rparr>) = (r0, d0, rest)"
    by (metis prod_cases3)
  from main_after_clear [OF p] assms have "r0 = r" and "d0 = d'"
    by simp_all
  with populate_users [OF p] show ?thesis
    by simp
qed

lemma roles_of_ten:
  "map role_of_index [0..<10]
   = [ADMIN, MODERATOR, USER, USER, USER, USER, USER, USER, USER, USER]"
  by code_simp

lemma count_role:
  "length (filter (\<lambda>u. user_role u = x) us) = count_list (map user_role us) x"
  by (induction us) simp_all

lemma example_run:
  "fst (main example_faker example_db)
   = Inr \<lparr>st_users = 10, st_profiles = 10, st_posts = 10, st_categories = 4,
          st_comments = 10, st_postCategories = 20\<rparr>"
  by code_simp

lemma example_run_state:
  "\<exists>d' t. main example_faker example_db
     = (Inr \<lparr>st_users = 10, st_profiles = 10, st_posts = 10, st_categories = 4,
             st_comments = 10, st_postCategories = 20\<rparr>, d', t)
     \<and> d' = fst (snd (main example_faker example_db))"
  using example_run by (metis prod.collapse)

text \<open>
  C8, as the script has it: the number of users is not a parameter. A run that completes
  leaves exactly ten users, the literal bound of the loop, whatever faker draws and
  whatever the database held; user \<open>i\<close> has the email drawn in round \<open>i\<close> and one
  profile, which refers to it and carries the bio drawn in that round; the statistics
  report ten users and ten profiles.
\<close>

theorem seed_creates_ten_users:
  assumes "main fk d = (Inr s, d', t)"
  shows "length (users d') = 10 \<and> length (profiles d') = 10
       \<and> map profile_userId (profiles d') = map user_id (users d')
       \<and> map user_email (users d') = map (\<lambda>i. fu_email (fk_user fk i)) [0..<10]
       \<and> map profile_bio (profiles d') = map (\<lambda>i. Some (fu_bio (fk_user fk i))) [0..<10]
       \<and> st_users s = 10 \<and> st_profiles s = 10"
proof -
  from main_users [OF assms] have
    u: "map user_email (users d') = map (\<lambda>i. fu_email (fk_user fk i)) [0..<10]"
    and p: "map profile_bio (profiles d') = map (\<lambda>i. Some (fu_bio (fk_user fk i))) [0..<10]"
    and i: "map profile_userId (profiles d') = map user_id (users d')"
    and s: "st_users s = length (users d')" "st_profiles s = length (profiles d')"
    by auto
  from u have lu: "length (users d') = 10"
    by (metis length_map length_upt diff_zero)
  from p have lp: "length (profiles d') = 10"
    by (metis length_map length_upt diff_zero)
  from u p i s lu lp show ?thesis
    by simp
qed

theorem seed_creates_ten_users_witness:
  "fst (main example_faker example_db)
     = Inr \<lparr>st_users = 10, st_profiles = 10, st_posts = 10, st_categories = 4,
            st_comments = 10, st_postCategories = 20\<rparr>
   \<and> length (users (fst (snd (main example_faker example_db)))) = 10
   \<and> length (profiles (fst (snd (main example_faker example_db)))) = 10"
proof -
  from example_run_state obtain d' t where
    m: "main example_faker example_db
     = (Inr \<lparr>st_users = 10, st_profiles = 10, st_posts = 10, st_categories = 4,
             st_comments = 10, st_postCategories = 20\<rparr>, d', t)"
    and d: "d' = fst (snd (main example_faker example_db))"
    by blast
  from seed_creates_ten_users [OF m] d example_run show ?thesis
    by simp
qed

text \<open>
  C8, as claimed, says that the user count can be varied between runs. No run that
  completes leaves a number of users other than ten.
\<close>

theorem user_count_is_not_configurable:
  "\<not> (\<exists>fk d s d' t. main fk d = (Inr s, d', t) \<and> length (users d') \<noteq> 10)"
proof
  assume "\<exists>fk d s d' t. main fk d = (Inr s, d', t) \<and> length (users d') \<noteq> 10"
  then obtain fk d s d' t where m: "main fk d = (Inr s, d', t)" and n: "length (users d') \<noteq> 10"
    by blast
  from main_users [OF m] have "map user_role (users d') = map role_of_index [0..<10]"
    by auto
  then have "length (users d') = 10"
    by (metis length_map length_upt diff_zero)
  with n show False
    by simp
qed

text \<open>
  C10. In every run the roles of the users in the table, in creation order, are those of
  their indices: ADMIN for the first, MODERATOR for the second, USER for every later one
  (a run that a rejected insert ends early has created the first \<open>k\<close> of them). After
  a run that completes the table holds exactly one ADMIN and exactly one MODERATOR.
\<close>

theorem seed_roles_by_index:
  assumes "main fk d = (r, d', t)"
  shows "\<exists>k. k \<le> 10
           \<and> map user_role (users d') = map role_of_index [0..<k]
           \<and> (\<forall>s. r = Inr s \<longrightarrow>
                 map user_role (users d')
                   = [ADMIN, MODERATOR, USER, USER, USER, USER, USER, USER, USER, USER]
                 \<and> length (filter (\<lambda>u. user_role u = ADMIN) (users d')) = 1
                 \<and> length (filter (\<lambda>u. user_role u = MODERATOR) (users d')) = 1)"
proof -
  from main_users [OF assms] obtain k where
    k: "k \<le> 10" "map user_role (users d') = map role_of_index [0..<k]"
       "\<forall>s. r = Inr s \<longrightarrow> k = 10"
    by blast
  have "map user_role (users d')
          = [ADMIN, MODERATOR, USER, USER, USER, USER, USER, USER, USER, USER]
        \<and> length (filter (\<lambda>u. user_role u = ADMIN) (users d')) = 1
        \<and> length (filter (\<lambda>u. user_role u = MODERATOR) (users d')) = 1"
    if "r = Inr s" for s
  proof -
    from that k have "map user_role (users d')
          = [ADMIN, MODERATOR, USER, USER, USER, USER, USER, USER, USER, USER]"
      by (simp add: roles_of_ten)
    then show ?thesis
      by (simp add: count_role)
  qed
  with k(1,2) show ?thesis
    by blast
qed

theorem seed_roles_by_index_witness:
  "map user_role (users (fst (snd (main example_faker example_db))))
     = [ADMIN, MODERATOR, USER, USER, USER, USER, USER, USER, USER, USER]
   \<and> length (filter (\<lambda>u. user_role u = ADMIN)
               (users (fst (snd (main example_faker example_db))))) = 1
   \<and> length (filter (\<lambda>u. user_role u = MODERATOR)
               (users (fst (snd (main example_faker example_db))))) = 1"
proof -
  from example_run_state obtain d' t where
    m: "main example_faker example_db
     = (Inr \<lparr>st_users = 10, st_profiles = 10, st_posts = 10, st_categories = 4,
             st_comments = 10, st_postCategories = 20\<rparr>, d', t)"
    and d: "d' = fst (snd (main example_faker example_db))"
    by blast
  from seed_roles_by_index [OF m] d show ?thesis
    by blast
qed

end
